theory Spec2Isabelle
  imports Complex_Main "HOL-Library.Product_Lexorder"
begin

section \<open>Values of the host libraries\<close>

text \<open>
  The exceptions the pipeline can raise.  \<open>KeyError\<close> is the selection of a column a
  frame does not have, \<open>IndexError\<close> is \<open>.iloc[-1]\<close> on an empty selection,
  \<open>ValueError\<close> is raised by the constructor of a rolling window, \<open>MergeError\<close> by
  the as-of join, and \<open>EstimatorError\<close> stands for whatever the regression library
  raises from \<open>fit\<close>.
\<close>

datatype error = KeyError string | IndexError | ValueError | MergeError | EstimatorError string

text \<open>
  A float column holds finite numbers, the two infinities and NaN.  Finite numbers are
  modelled exactly (as reals): rounding and overflow are outside the model, the special
  values produced by a division are inside it.  Vectorised division never raises;
  a zero divisor gives an infinity, or NaN for \<open>0 / 0\<close>.
\<close>

datatype npfloat = Finite real | PosInf | NegInf | NaN

fun np_div :: "npfloat \<Rightarrow> npfloat \<Rightarrow> npfloat" where
  "np_div (Finite x) (Finite y) =
     (if y = 0 then (if x = 0 then NaN else if 0 < x then PosInf else NegInf)
      else Finite (x / y))"
| "np_div NaN b = NaN"
| "np_div a NaN = NaN"
| "np_div (Finite x) PosInf = Finite 0"
| "np_div (Finite x) NegInf = Finite 0"
| "np_div PosInf (Finite y) = (if 0 \<le> y then PosInf else NegInf)"
| "np_div NegInf (Finite y) = (if 0 \<le> y then NegInf else PosInf)"
| "np_div a b = NaN"

fun np_sub :: "npfloat \<Rightarrow> real \<Rightarrow> npfloat" where
  "np_sub (Finite x) c = Finite (x - c)"
| "np_sub a c = a"

text \<open>The mean of a window; pandas yields NaN for a window without observations.\<close>

definition mean :: "real list \<Rightarrow> npfloat" where
  "mean xs = (if xs = [] then NaN else Finite (sum_list xs / real (length xs)))"

section \<open>Calendar dates\<close>

text \<open>
  A calendar date (\<open>datetime.date\<close>) is modelled by its day number, the days elapsed
  since 1970-01-01; a timestamp by its seconds since the same epoch.  Comparing two dates
  is comparing their day numbers, and a window of \<open>n\<close> days is a difference of \<open>n\<close>.
  The civil calendar (proleptic Gregorian) is needed for the month, the month end and
  the one-year offset of the cleaning stage.
\<close>

definition is_leap_year :: "int \<Rightarrow> bool" where
  "is_leap_year y = (y mod 4 = 0 \<and> (y mod 100 \<noteq> 0 \<or> y mod 400 = 0))"

definition days_in_month :: "int \<Rightarrow> int \<Rightarrow> int" where
  "days_in_month y m =
     (if m = 2 then (if is_leap_year y then 29 else 28)
      else if m = 4 \<or> m = 6 \<or> m = 9 \<or> m = 11 then 30 else 31)"

definition days_from_civil :: "int \<Rightarrow> int \<Rightarrow> int \<Rightarrow> int" where
  "days_from_civil y m d =
     (let y' = (if m \<le> 2 then y - 1 else y);
          era = y' div 400;
          yoe = y' - era * 400;
          doy = (153 * (if 2 < m then m - 3 else m + 9) + 2) div 5 + d - 1;
          doe = yoe * 365 + yoe div 4 - yoe div 100 + doy
      in era * 146097 + doe - 719468)"

definition civil_from_days :: "int \<Rightarrow> int \<times> int \<times> int" where
  "civil_from_days z =
     (let z' = z + 719468;
          era = z' div 146097;
          doe = z' - era * 146097;
          yoe = (doe - doe div 1460 + doe div 36524 - doe div 146096) div 365;
          doy = doe - (365 * yoe + yoe div 4 - yoe div 100);
          mp = (5 * doy + 2) div 153;
          d = doy - (153 * mp + 2) div 5 + 1;
          m = (if mp < 10 then mp + 3 else mp - 9);
          y = yoe + era * 400
      in (if m \<le> 2 then y + 1 else y, m, d))"

text \<open>\<open>.dt.date\<close>: the calendar date of a timestamp, the time of day discarded.\<close>

definition to_date :: "int \<Rightarrow> int" where
  "to_date ts = ts div 86400"

text \<open>
  \<open>d - pd.DateOffset(years=1)\<close>: the same month and day one year earlier, the day
  clamped to the length of the month (29 February becomes 28 February).
\<close>

definition minus_one_year :: "int \<Rightarrow> int" where
  "minus_one_year d =
     (case civil_from_days d of
        (y, m, dd) \<Rightarrow> days_from_civil (y - 1) m (min dd (days_in_month (y - 1) m)))"

text \<open>\<open>.dt.dayofweek\<close> (Monday is 0; 1970-01-01 was a Thursday), \<open>.dt.month\<close> and
  \<open>.dt.is_month_end\<close>.\<close>

definition dayofweek :: "int \<Rightarrow> int" where
  "dayofweek d = (d + 3) mod 7"

definition month_of :: "int \<Rightarrow> int" where
  "month_of d = (case civil_from_days d of (y, m, dd) \<Rightarrow> m)"

definition month_end :: "int \<Rightarrow> bool" where
  "month_end d = (case civil_from_days d of (y, m, dd) \<Rightarrow> dd = days_in_month y m)"

section \<open>The data source and the tables\<close>

text \<open>
  A row of \<open>sale.order\<close> as \<open>search_read\<close> returns it.  The product and the quantity
  may be null (\<open>None\<close>); the cleaning stage drops such rows, after which the same columns
  hold plain values, hence the two type parameters.
\<close>

record ('p, 'q) sale_order =
  date_order :: int
  product_id :: 'p
  product_uom_qty :: 'q
  price_unit :: real

record ('p, 'q) sales_row = "('p, 'q) sale_order" +
  date :: int

record timed_row = "(nat, real) sales_row" +
  day_of_week :: int
  month :: int
  is_month_end :: int

record rolled_row = timed_row +
  avg_sales_7d :: npfloat
  sales_growth_30d :: npfloat

text \<open>
  After the join a row carries the \<open>quantity\<close> of the matched inventory level (\<open>None\<close>
  is the null of a row without a match) and the ratio derived from it.
\<close>

record joined_row = rolled_row +
  quantity :: "real option"
  demand_supply_ratio :: npfloat

record stock_move =
  move_product_id :: nat
  move_date :: int
  quantity_done :: real

record stock_quant =
  quant_product_id :: nat
  quant_quantity :: real
  quant_date :: int

record product =
  product_ident :: nat
  qty_available :: real

text \<open>
  The environment (\<open>self.env\<close>) read by the engine: the sale orders with their state,
  the stock moves, the stock levels, the product catalog, the warehouses, the
  opportunity tag if the reference resolves, and the identifier a newly created tag
  receives.
\<close>

record odoo_env =
  sale_orders :: "(string \<times> (nat option, real option) sale_order) list"
  stock_moves :: "stock_move list"
  stock_quants :: "stock_quant list"
  products :: "product list"
  warehouses :: "nat list"
  opportunity_tag :: "nat option"
  fresh_tag :: nat

text \<open>
  The feature table handed to the trainer either went through the join, or is the
  rolling-featurized table itself, which has no \<open>quantity\<close> and no
  \<open>demand_supply_ratio\<close> column.
\<close>

datatype feature_table = Unjoined "rolled_row list" | Joined "joined_row list"

section \<open>Feature engineering\<close>

subsection \<open>Extraction\<close>

definition extract_raw_data ::
  "odoo_env \<Rightarrow> (nat option, real option) sale_order list \<times> stock_move list" where
  "extract_raw_data env =
     (map snd (filter (\<lambda>so. fst so = ''sale'') (sale_orders env)), stock_moves env)"

subsection \<open>Cleaning\<close>

text \<open>
  A frame built from an empty result has no columns, so reading \<open>date_order\<close> raises.
  Otherwise the \<open>date\<close> column is added, the rows dated strictly after "today minus one
  year" are kept, and the rows with a null product or quantity are dropped.  \<open>now\<close> is
  the timestamp \<open>pd.to_datetime('today')\<close> returns.
\<close>

definition with_date :: "('p, 'q) sale_order \<Rightarrow> ('p, 'q) sales_row" where
  "with_date r =
     \<lparr>date_order = date_order r, product_id = product_id r,
      product_uom_qty = product_uom_qty r, price_unit = price_unit r,
      date = to_date (date_order r)\<rparr>"

fun dropna :: "(nat option, real option) sales_row list \<Rightarrow> (nat, real) sales_row list" where
  "dropna [] = []"
| "dropna (r # rs) =
     (case (product_id r, product_uom_qty r) of
        (Some p, Some q) \<Rightarrow>
          \<lparr>date_order = date_order r, product_id = p, product_uom_qty = q,
           price_unit = price_unit r, date = date r\<rparr> # dropna rs
      | _ \<Rightarrow> dropna rs)"

definition clean_data ::
  "int \<Rightarrow> (nat option, real option) sale_order list \<times> stock_move list
     \<Rightarrow> error + (nat, real) sales_row list" where
  "clean_data now raw_data =
     (if fst raw_data = [] then Inl (KeyError ''date_order'')
      else Inr (dropna (filter (\<lambda>r. minus_one_year (to_date now) < date r)
                          (map with_date (fst raw_data)))))"

subsection \<open>Time features\<close>

definition add_time_features :: "(nat, real) sales_row list \<Rightarrow> timed_row list" where
  "add_time_features df =
     map (\<lambda>r. \<lparr>date_order = date_order r, product_id = product_id r,
               product_uom_qty = product_uom_qty r, price_unit = price_unit r,
               date = date r, day_of_week = dayofweek (date r), month = month_of (date r),
               is_month_end = (if month_end (date r) then 1 else 0)\<rparr>) df"

subsection \<open>Rolling features\<close>

text \<open>
  \<open>sort_values\<close> is a stable sort on the key.
  \<open>groupby('product_id')[col].transform(f)\<close> calls \<open>f\<close> on the column of each product,
  the products taken in ascending order; an exception raised by \<open>f\<close> ends the call.  A
  frame without rows has no group: \<open>f\<close> is not called and the result is an empty column.
  When every call returns, the \<open>k\<close>-th result of a group goes to the \<open>k\<close>-th row of that
  group.
\<close>

fun apply_groups :: "('k \<Rightarrow> error + 'v) \<Rightarrow> 'k list \<Rightarrow> error + ('k \<times> 'v) list" where
  "apply_groups f [] = Inr []"
| "apply_groups f (k # ks) =
     (case f k of
        Inl e \<Rightarrow> Inl e
      | Inr v \<Rightarrow>
          (case apply_groups f ks of
             Inl e \<Rightarrow> Inl e
           | Inr vs \<Rightarrow> Inr ((k, v) # vs)))"

definition transform ::
  "(real list \<Rightarrow> error + npfloat list) \<Rightarrow> timed_row list \<Rightarrow> error + npfloat list" where
  "transform f df =
     (case apply_groups
             (\<lambda>k. f (map product_uom_qty (filter (\<lambda>r. product_id r = k) df)))
             (sort (remdups (map product_id df))) of
        Inl e \<Rightarrow> Inl e
      | Inr results \<Rightarrow>
          Inr (map (\<lambda>i. case map_of results (product_id (df ! i)) of
                          None \<Rightarrow> NaN
                        | Some res \<Rightarrow>
                            res ! length (filter (\<lambda>r. product_id r = product_id (df ! i))
                                            (take i df)))
                   [0..<length df]))"

text \<open>
  \<open>x.rolling(window=w, on=df['date'])\<close>, on a series \<open>x\<close>: the constructor accepts for
  \<open>on\<close> nothing, an index, or (on a frame only) the label of a column.  The source
  passes the column \<open>df['date']\<close> itself, which is a series, and the constructor raises
  \<open>ValueError\<close>; no window is formed and \<open>.mean()\<close> is not reached.  In the growth
  rate the left operand of the division is evaluated first.
\<close>

definition rolling :: "string \<Rightarrow> int list \<Rightarrow> real list \<Rightarrow> error + real list list" where
  "rolling window on x = Inl ValueError"

definition rolling_mean :: "string \<Rightarrow> int list \<Rightarrow> real list \<Rightarrow> error + npfloat list" where
  "rolling_mean window on x =
     (case rolling window on x of
        Inl e \<Rightarrow> Inl e
      | Inr windows \<Rightarrow> Inr (map mean windows))"

definition growth_rate :: "int list \<Rightarrow> real list \<Rightarrow> error + npfloat list" where
  "growth_rate on x =
     (case rolling_mean ''30D'' on x of
        Inl e \<Rightarrow> Inl e
      | Inr m30 \<Rightarrow>
          (case rolling_mean ''60D'' on x of
             Inl e \<Rightarrow> Inl e
           | Inr m60 \<Rightarrow> Inr (map (\<lambda>(a, b). np_sub (np_div a b) 1) (zip m30 m60))))"

definition add_rolling_features :: "timed_row list \<Rightarrow> int \<Rightarrow> error + rolled_row list" where
  "add_rolling_features df window_days =
     (let df' = sort_key (\<lambda>r. (product_id r, date r)) df;
          on = map date df'
      in case transform (rolling_mean ''7D'' on) df' of
           Inl e \<Rightarrow> Inl e
         | Inr avg \<Rightarrow>
             (case transform (growth_rate on) df' of
                Inl e \<Rightarrow> Inl e
              | Inr growth \<Rightarrow>
                  Inr (map (\<lambda>(r, a, g).
                         \<lparr>date_order = date_order r, product_id = product_id r,
                          product_uom_qty = product_uom_qty r, price_unit = price_unit r,
                          date = date r, day_of_week = day_of_week r, month = month r,
                          is_month_end = is_month_end r, avg_sales_7d = a,
                          sales_growth_30d = g\<rparr>)
                       (zip df' (zip avg growth)))))"

subsection \<open>Inventory features\<close>

text \<open>
  \<open>merge_asof(left, right, on='date', by='product_id', direction='backward')\<close> requires
  the \<open>on\<close> key of both frames to be numeric or a timestamp.  Both \<open>date\<close> columns are
  made with \<open>.dt.date\<close>, so they hold calendar dates as objects, and the call raises
  \<open>MergeError\<close> before it looks at a row, also when the left frame has no rows.  The
  lines after the call give every joined row the \<open>quantity\<close> of its match (null without
  a match) and the ratio derived from it.
\<close>

definition merge_asof ::
  "rolled_row list \<Rightarrow> stock_quant list \<Rightarrow> error + (rolled_row \<times> stock_quant option) list" where
  "merge_asof left right = Inl MergeError"

definition ratio :: "real \<Rightarrow> real option \<Rightarrow> npfloat" where
  "ratio sold on_hand =
     (case on_hand of
        None \<Rightarrow> NaN
      | Some q \<Rightarrow> np_div (Finite sold) (Finite (q + 1 / 1000000)))"

definition join_row :: "rolled_row \<Rightarrow> stock_quant option \<Rightarrow> joined_row" where
  "join_row r m =
     \<lparr>date_order = date_order r, product_id = product_id r,
      product_uom_qty = product_uom_qty r, price_unit = price_unit r,
      date = date r, day_of_week = day_of_week r, month = month r,
      is_month_end = is_month_end r, avg_sales_7d = avg_sales_7d r,
      sales_growth_30d = sales_growth_30d r,
      quantity = map_option quant_quantity m,
      demand_supply_ratio = ratio (product_uom_qty r) (map_option quant_quantity m)\<rparr>"

definition inventory_dates :: "stock_quant list \<Rightarrow> stock_quant list" where
  "inventory_dates inventory = map (\<lambda>q. q\<lparr>quant_date := to_date (quant_date q)\<rparr>) inventory"

definition add_inventory_features ::
  "odoo_env \<Rightarrow> rolled_row list \<Rightarrow> error + feature_table" where
  "add_inventory_features env df =
     (let inventory = stock_quants env
      in if inventory \<noteq> [] then
           (let inventory_df = inventory_dates inventory
            in case merge_asof (sort_key date df) (sort_key quant_date inventory_df) of
                 Inl e \<Rightarrow> Inl e
               | Inr merged \<Rightarrow> Inr (Joined (map (\<lambda>(r, m). join_row r m) merged)))
         else Inr (Unjoined df))"

subsection \<open>The pipeline\<close>

definition prepare_training_data :: "int \<Rightarrow> odoo_env \<Rightarrow> int \<Rightarrow> error + feature_table" where
  "prepare_training_data now env lookback_days =
     (case clean_data now (extract_raw_data env) of
        Inl e \<Rightarrow> Inl e
      | Inr df \<Rightarrow>
          (case add_rolling_features (add_time_features df) lookback_days of
             Inl e \<Rightarrow> Inl e
           | Inr df' \<Rightarrow> add_inventory_features env df'))"

section \<open>Training and prediction\<close>

text \<open>
  The regression library is a parameter: \<open>fit\<close> trains an opaque model from the feature
  matrix and the targets (or raises), \<open>predict\<close> evaluates a model on one feature
  vector.  Selecting the four feature columns raises \<open>KeyError\<close> on a frame that lacks
  one of them.
\<close>

type_synonym features = "int \<times> int \<times> npfloat \<times> npfloat"

definition train_model ::
  "(features list \<Rightarrow> real list \<Rightarrow> error + 'm) \<Rightarrow> feature_table \<Rightarrow> error + 'm" where
  "train_model fit df =
     (case df of
        Unjoined rows \<Rightarrow> Inl (KeyError ''demand_supply_ratio'')
      | Joined rows \<Rightarrow>
          fit (map (\<lambda>r. (day_of_week r, month r, avg_sales_7d r, demand_supply_ratio r)) rows)
              (map product_uom_qty rows))"

text \<open>
  \<open>df[df['product_id'] == product.id].iloc[-1]\<close> raises \<open>IndexError\<close> on an empty
  selection; otherwise it is the last selected row, of which the two rolling features
  are read.
\<close>

definition latest_features :: "feature_table \<Rightarrow> nat \<Rightarrow> error + npfloat \<times> npfloat" where
  "latest_features df pid =
     (case df of
        Unjoined rows \<Rightarrow>
          (case filter (\<lambda>r. product_id r = pid) rows of
             [] \<Rightarrow> Inl IndexError
           | r # rs \<Rightarrow> Inl (KeyError ''demand_supply_ratio''))
      | Joined rows \<Rightarrow>
          (case filter (\<lambda>r. product_id r = pid) rows of
             [] \<Rightarrow> Inl IndexError
           | r # rs \<Rightarrow>
               (let latest = last (r # rs)
                in Inr (avg_sales_7d latest, demand_supply_ratio latest))))"

fun predict_each ::
  "('m \<Rightarrow> features \<Rightarrow> real) \<Rightarrow> int \<Rightarrow> 'm \<Rightarrow> feature_table \<Rightarrow> product list
     \<Rightarrow> (nat \<rightharpoonup> real) \<Rightarrow> error + (nat \<rightharpoonup> real)" where
  "predict_each predict now model df [] predictions = Inr predictions"
| "predict_each predict now model df (p # ps) predictions =
     (case latest_features df (product_ident p) of
        Inl e \<Rightarrow> Inl e
      | Inr (a, d) \<Rightarrow>
          predict_each predict now model df ps
            (predictions(product_ident p \<mapsto>
               predict model (dayofweek (to_date now), month_of (to_date now), a, d))))"

definition generate_predictions ::
  "('m \<Rightarrow> features \<Rightarrow> real) \<Rightarrow> int \<Rightarrow> odoo_env \<Rightarrow> 'm \<Rightarrow> feature_table
     \<Rightarrow> error + (nat \<rightharpoonup> real)" where
  "generate_predictions predict now env model df =
     predict_each predict now model df (products env) Map.empty"

section \<open>Automated actions\<close>

text \<open>
  The writes the engine issues, in order: a reorder rule (product, minimum, maximum,
  warehouse), a note on a product (with the predicted demand it reports), the creation
  of the tag category, and the addition of a tag to a product.
\<close>

datatype action =
  Orderpoint_create nat real real "nat option"
| Message_post nat real
| Category_create string
| Product_write nat nat

definition get :: "(nat \<rightharpoonup> real) \<Rightarrow> nat \<Rightarrow> real \<Rightarrow> real" where
  "get predictions k dflt = (case predictions k of None \<Rightarrow> dflt | Some v \<Rightarrow> v)"

definition first_warehouse :: "odoo_env \<Rightarrow> nat option" where
  "first_warehouse env = (case warehouses env of [] \<Rightarrow> None | w # ws \<Rightarrow> Some w)"

definition inventory_alert :: "odoo_env \<Rightarrow> (nat \<rightharpoonup> real) \<Rightarrow> product \<Rightarrow> action list" where
  "inventory_alert env predictions p =
     (let predicted_demand = get predictions (product_ident p) 0;
          current_stock = qty_available p
      in if current_stock < predicted_demand then
           [Orderpoint_create (product_ident p) (predicted_demand * (12 / 10))
              (predicted_demand * (15 / 10)) (first_warehouse env),
            Message_post (product_ident p) predicted_demand]
         else [])"

definition trigger_inventory_alerts :: "odoo_env \<Rightarrow> (nat \<rightharpoonup> real) \<Rightarrow> action list" where
  "trigger_inventory_alerts env predictions =
     concat (map (inventory_alert env predictions) (products env))"

definition sales_opportunity :: "nat \<Rightarrow> (nat \<rightharpoonup> real) \<Rightarrow> product \<Rightarrow> action list" where
  "sales_opportunity tag predictions p =
     (if qty_available p * (15 / 10) < get predictions (product_ident p) 0
      then [Product_write (product_ident p) tag] else [])"

definition flag_sales_opportunities :: "odoo_env \<Rightarrow> (nat \<rightharpoonup> real) \<Rightarrow> action list" where
  "flag_sales_opportunities env predictions =
     (case opportunity_tag env of
        Some tag \<Rightarrow> concat (map (sales_opportunity tag predictions) (products env))
      | None \<Rightarrow>
          Category_create ''Sales Opportunity''
            # concat (map (sales_opportunity (fresh_tag env) predictions) (products env)))"

text \<open>
  The entry point catches every exception and returns a message; the model keeps the
  exception itself (\<open>Inl\<close>) in place of its text, next to the writes that were issued.
\<close>

definition generate_and_act_on_predictions ::
  "(features list \<Rightarrow> real list \<Rightarrow> error + 'm) \<Rightarrow> ('m \<Rightarrow> features \<Rightarrow> real) \<Rightarrow> int \<Rightarrow> odoo_env
     \<Rightarrow> (error + string) \<times> action list" where
  "generate_and_act_on_predictions fit predict now env =
     (case prepare_training_data now env 365 of
        Inl e \<Rightarrow> (Inl e, [])
      | Inr df \<Rightarrow>
          (case train_model fit df of
             Inl e \<Rightarrow> (Inl e, [])
           | Inr model \<Rightarrow>
               (case generate_predictions predict now env model df of
                  Inl e \<Rightarrow> (Inl e, [])
                | Inr predictions \<Rightarrow>
                    (Inr ''Predictions and automations completed successfully'',
                     trigger_inventory_alerts env predictions
                       @ flag_sales_opportunities env predictions))))"

section \<open>Example data\<close>

text \<open>A catalog of four products with their predictions, one for each combination of
  the two decisions of the action engine.\<close>

definition catalog_env :: odoo_env where
  "catalog_env =
     \<lparr>sale_orders = [], stock_moves = [], stock_quants = [],
      products = [\<lparr>product_ident = 1, qty_available = 3\<rparr>,
                  \<lparr>product_ident = 2, qty_available = 5\<rparr>,
                  \<lparr>product_ident = 3, qty_available = - 2\<rparr>,
                  \<lparr>product_ident = 4, qty_available = 10\<rparr>],
      warehouses = [1], opportunity_tag = Some 7, fresh_tag = 8\<rparr>"

definition catalog_predictions :: "nat \<rightharpoonup> real" where
  "catalog_predictions = [1 \<mapsto> 10, 2 \<mapsto> 7, 3 \<mapsto> - 5 / 2, 4 \<mapsto> 5]"


text \<open>
  A shop on 2026-11-04 (day 20761) with one confirmed order of product 1, placed 100
  days earlier (day 20661), four inventory levels given out of order (product 1 on days
  20650, 20660 and 20670, product 2 on day 20655), and a catalog of two products, of
  which product 2 was never sold.  \<open>shop_sale\<close> is the order after cleaning;
  \<open>shop_features\<close> is a rolling-featurized table and \<open>shop_joined\<close> a row of a joined
  table with that sale, as a caller of the later stages may pass them.
  \<open>sold_out_shop\<close> has a single inventory level, of quantity 0, dated the day before the
  sale.  \<open>stale_shop\<close> has a single order older than one year and no inventory level.
  \<open>rolling_example\<close> holds five sales of two products in arbitrary order,
  \<open>zero_sales\<close> one sale of quantity zero.
\<close>

definition run_time :: int where
  "run_time = 1793786400"

definition shop :: odoo_env where
  "shop =
     \<lparr>sale_orders =
        [(''sale'', \<lparr>date_order = 1785114000, product_id = Some 1,
                     product_uom_qty = Some 4, price_unit = 2\<rparr>)],
      stock_moves = [],
      stock_quants =
        [\<lparr>quant_product_id = 1, quant_quantity = 8, quant_date = 1785888000\<rparr>,
         \<lparr>quant_product_id = 1, quant_quantity = 0, quant_date = 1785024100\<rparr>,
         \<lparr>quant_product_id = 2, quant_quantity = 99, quant_date = 1784642000\<rparr>,
         \<lparr>quant_product_id = 1, quant_quantity = 12, quant_date = 1784167200\<rparr>],
      products = [\<lparr>product_ident = 1, qty_available = 3\<rparr>,
                  \<lparr>product_ident = 2, qty_available = 5\<rparr>],
      warehouses = [1], opportunity_tag = None, fresh_tag = 9\<rparr>"

definition shop_sale :: "(nat, real) sales_row" where
  "shop_sale =
     \<lparr>date_order = 1785114000, product_id = 1, product_uom_qty = 4, price_unit = 2,
      date = 20661\<rparr>"

definition shop_features :: "rolled_row list" where
  "shop_features =
     [\<lparr>date_order = 1785114000, product_id = 1, product_uom_qty = 4, price_unit = 2,
       date = 20661, day_of_week = 0, month = 7, is_month_end = 0,
       avg_sales_7d = Finite 4, sales_growth_30d = Finite 0\<rparr>]"

definition shop_joined :: joined_row where
  "shop_joined =
     \<lparr>date_order = 1785114000, product_id = 1, product_uom_qty = 4, price_unit = 2,
      date = 20661, day_of_week = 0, month = 7, is_month_end = 0,
      avg_sales_7d = Finite 4, sales_growth_30d = Finite 0,
      quantity = Some 0, demand_supply_ratio = Finite 4000000\<rparr>"


definition sold_out_shop :: odoo_env where
  "sold_out_shop =
     shop\<lparr>stock_quants :=
       [\<lparr>quant_product_id = 1, quant_quantity = 0, quant_date = 1785024100\<rparr>]\<rparr>"

definition stale_shop :: odoo_env where
  "stale_shop =
     shop\<lparr>sale_orders :=
            [(''sale'', \<lparr>date_order = 1728000000, product_id = Some 1,
                         product_uom_qty = Some 4, price_unit = 2\<rparr>)],
          stock_quants := []\<rparr>"

definition rolling_example :: "timed_row list" where
  "rolling_example =
     add_time_features
       [\<lparr>date_order = 1785024000, product_id = 1, product_uom_qty = 30, price_unit = 2,
         date = 20660\<rparr>,
        \<lparr>date_order = 1783555200, product_id = 2, product_uom_qty = 7, price_unit = 5,
         date = 20643\<rparr>,
        \<lparr>date_order = 1783728000, product_id = 1, product_uom_qty = 20, price_unit = 2,
         date = 20645\<rparr>,
        \<lparr>date_order = 1780704000, product_id = 1, product_uom_qty = 50, price_unit = 2,
         date = 20610\<rparr>,
        \<lparr>date_order = 1783296000, product_id = 1, product_uom_qty = 10, price_unit = 2,
         date = 20640\<rparr>]"

definition zero_sales :: "timed_row list" where
  "zero_sales =
     add_time_features
       [\<lparr>date_order = 1785024000, product_id = 1, product_uom_qty = 0, price_unit = 2,
         date = 20660\<rparr>]"

section \<open>The action engine\<close>

lemma orderpoint_in_alerts:
  "Orderpoint_create k mn mx w \<in> set (trigger_inventory_alerts env predictions) \<longleftrightarrow>
     (\<exists>p \<in> set (products env). product_ident p = k \<and>
        qty_available p < get predictions k 0 \<and>
        mn = get predictions k 0 * (12 / 10) \<and> mx = get predictions k 0 * (15 / 10) \<and>
        w = first_warehouse env)"
  by (auto simp: trigger_inventory_alerts_def inventory_alert_def Let_def)

lemma message_in_alerts:
  "Message_post k v \<in> set (trigger_inventory_alerts env predictions) \<longleftrightarrow>
     (\<exists>p \<in> set (products env). product_ident p = k \<and>
        qty_available p < get predictions k 0 \<and> v = get predictions k 0)"
  by (auto simp: trigger_inventory_alerts_def inventory_alert_def Let_def)

lemma tag_in_flags:
  "Product_write k t \<in> set (flag_sales_opportunities env predictions) \<longleftrightarrow>
     (\<exists>p \<in> set (products env). product_ident p = k \<and>
        qty_available p * (15 / 10) < get predictions k 0 \<and>
        t = (case opportunity_tag env of Some tag \<Rightarrow> tag | None \<Rightarrow> fresh_tag env))"
  by (auto simp: flag_sales_opportunities_def sales_opportunity_def split: option.splits)

lemma distinct_ident:
  "distinct (map product_ident ps) \<Longrightarrow> p \<in> set ps \<Longrightarrow> q \<in> set ps \<Longrightarrow>
     product_ident q = product_ident p \<Longrightarrow> q = p"
  by (meson distinct_map inj_onD)

text \<open>
  Claim C3.  For a catalog product that has an entry \<open>d\<close> in the prediction map
  (product identifiers being unique in the catalog): a reorder rule is created for it
  exactly when its stock is below \<open>d\<close>, every such rule has minimum \<open>d \<times> 1.2\<close> and
  maximum \<open>d \<times> 1.5\<close>, the note is posted under the same condition, and the opportunity
  tag is added exactly when \<open>d\<close> exceeds the stock times 1.5.  Each decision depends on
  its own comparison only; the example catalog shows all four combinations.
\<close>

theorem action_engine_decisions:
  assumes "distinct (map product_ident (products env))"
    and "p \<in> set (products env)"
    and "predictions (product_ident p) = Some d"
  shows "((\<exists>mn mx w. Orderpoint_create (product_ident p) mn mx w
             \<in> set (trigger_inventory_alerts env predictions)) \<longleftrightarrow> qty_available p < d)
       \<and> (\<forall>mn mx w. Orderpoint_create (product_ident p) mn mx w
             \<in> set (trigger_inventory_alerts env predictions) \<longrightarrow>
             mn = d * (12 / 10) \<and> mx = d * (15 / 10))
       \<and> ((\<exists>v. Message_post (product_ident p) v
             \<in> set (trigger_inventory_alerts env predictions)) \<longleftrightarrow> qty_available p < d)
       \<and> ((\<exists>t. Product_write (product_ident p) t
             \<in> set (flag_sales_opportunities env predictions)) \<longleftrightarrow>
           qty_available p * (15 / 10) < d)"
proof -
  have g: "get predictions (product_ident p) 0 = d"
    using assms(3) by (simp add: get_def)
  have same: "\<And>q. q \<in> set (products env) \<Longrightarrow> product_ident q = product_ident p \<Longrightarrow> q = p"
    using distinct_ident [OF assms(1) assms(2)] by blast
  have a: "(\<exists>mn mx w. Orderpoint_create (product_ident p) mn mx w
             \<in> set (trigger_inventory_alerts env predictions)) \<longleftrightarrow> qty_available p < d"
    unfolding orderpoint_in_alerts g using assms(2) same by blast
  have b: "\<forall>mn mx w. Orderpoint_create (product_ident p) mn mx w
             \<in> set (trigger_inventory_alerts env predictions) \<longrightarrow>
             mn = d * (12 / 10) \<and> mx = d * (15 / 10)"
    unfolding orderpoint_in_alerts g by blast
  have c: "(\<exists>v. Message_post (product_ident p) v
             \<in> set (trigger_inventory_alerts env predictions)) \<longleftrightarrow> qty_available p < d"
    unfolding message_in_alerts g using assms(2) same by blast
  have e: "(\<exists>t. Product_write (product_ident p) t
             \<in> set (flag_sales_opportunities env predictions)) \<longleftrightarrow>
           qty_available p * (15 / 10) < d"
    unfolding tag_in_flags g using assms(2) same by blast
  show ?thesis using a b c e by blast
qed

theorem action_engine_decisions_witness:
  "distinct (map product_ident (products catalog_env))
   \<and> (\<exists>mn mx w. Orderpoint_create 1 mn mx w
          \<in> set (trigger_inventory_alerts catalog_env catalog_predictions))
   \<and> (\<exists>t. Product_write 1 t \<in> set (flag_sales_opportunities catalog_env catalog_predictions))
   \<and> (\<exists>mn mx w. Orderpoint_create 2 mn mx w
          \<in> set (trigger_inventory_alerts catalog_env catalog_predictions))
   \<and> \<not> (\<exists>t. Product_write 2 t \<in> set (flag_sales_opportunities catalog_env catalog_predictions))
   \<and> \<not> (\<exists>mn mx w. Orderpoint_create 3 mn mx w
          \<in> set (trigger_inventory_alerts catalog_env catalog_predictions))
   \<and> (\<exists>t. Product_write 3 t \<in> set (flag_sales_opportunities catalog_env catalog_predictions))
   \<and> \<not> (\<exists>mn mx w. Orderpoint_create 4 mn mx w
          \<in> set (trigger_inventory_alerts catalog_env catalog_predictions))
   \<and> \<not> (\<exists>t. Product_write 4 t \<in> set (flag_sales_opportunities catalog_env catalog_predictions))"
proof -
  have d: "distinct (map product_ident (products catalog_env))"
    by (simp add: catalog_env_def)
  have p1: "\<lparr>product_ident = 1, qty_available = 3\<rparr> \<in> set (products catalog_env)"
    and p2: "\<lparr>product_ident = 2, qty_available = 5\<rparr> \<in> set (products catalog_env)"
    and p3: "\<lparr>product_ident = 3, qty_available = - 2\<rparr> \<in> set (products catalog_env)"
    and p4: "\<lparr>product_ident = 4, qty_available = 10\<rparr> \<in> set (products catalog_env)"
    by (simp_all add: catalog_env_def)
  have q1: "catalog_predictions (product_ident \<lparr>product_ident = 1, qty_available = 3\<rparr>) = Some 10"
    and q2: "catalog_predictions (product_ident \<lparr>product_ident = 2, qty_available = 5\<rparr>) = Some 7"
    and q3: "catalog_predictions (product_ident \<lparr>product_ident = 3, qty_available = - 2\<rparr>) = Some (- 5 / 2)"
    and q4: "catalog_predictions (product_ident \<lparr>product_ident = 4, qty_available = 10\<rparr>) = Some 5"
    by (simp_all add: catalog_predictions_def)
  show ?thesis
    using d action_engine_decisions [where env = catalog_env and predictions = catalog_predictions
        and p = "\<lparr>product_ident = 1, qty_available = 3\<rparr>" and d = "10", OF d p1 q1] action_engine_decisions [where env = catalog_env and predictions = catalog_predictions
        and p = "\<lparr>product_ident = 2, qty_available = 5\<rparr>" and d = "7", OF d p2 q2]
      action_engine_decisions [where env = catalog_env and predictions = catalog_predictions
        and p = "\<lparr>product_ident = 3, qty_available = - 2\<rparr>" and d = "- 5 / 2", OF d p3 q3] action_engine_decisions [where env = catalog_env and predictions = catalog_predictions
        and p = "\<lparr>product_ident = 4, qty_available = 10\<rparr>" and d = "5", OF d p4 q4]
    by simp
qed

text \<open>
  Claim C7, as amended.  A product without an entry in the prediction map is treated as
  predicted demand 0 (\<open>predictions.get(product.id, 0)\<close>).  If its on-hand quantity is
  not negative, no reorder rule is created, no note is posted and no tag is added for
  it.  With a negative on-hand quantity both comparisons succeed, and the product gets a
  reorder rule with bounds 0, a note and the tag, as product 3 of the
  example catalog shows below.
\<close>

theorem absent_product_no_action:
  assumes "distinct (map product_ident (products env))"
    and "p \<in> set (products env)"
    and "predictions (product_ident p) = None"
    and "0 \<le> qty_available p"
  shows "(\<forall>mn mx w. Orderpoint_create (product_ident p) mn mx w
            \<notin> set (trigger_inventory_alerts env predictions))
       \<and> (\<forall>v. Message_post (product_ident p) v
            \<notin> set (trigger_inventory_alerts env predictions))
       \<and> (\<forall>t. Product_write (product_ident p) t
            \<notin> set (flag_sales_opportunities env predictions))"
proof -
  have g: "get predictions (product_ident p) 0 = 0"
    using assms(3) by (simp add: get_def)
  have same: "\<And>q. q \<in> set (products env) \<Longrightarrow> product_ident q = product_ident p \<Longrightarrow> q = p"
    using distinct_ident [OF assms(1) assms(2)] by blast
  have a: "\<forall>mn mx w. Orderpoint_create (product_ident p) mn mx w
            \<notin> set (trigger_inventory_alerts env predictions)"
    unfolding orderpoint_in_alerts g using same assms(4) by force
  have b: "\<forall>v. Message_post (product_ident p) v
            \<notin> set (trigger_inventory_alerts env predictions)"
    unfolding message_in_alerts g using same assms(4) by force
  have c: "\<forall>t. Product_write (product_ident p) t
            \<notin> set (flag_sales_opportunities env predictions)"
    unfolding tag_in_flags g using same assms(4) by force
  show ?thesis using a b c by blast
qed

theorem absent_product_no_action_witness:
  "distinct (map product_ident (products catalog_env))
   \<and> Orderpoint_create 1 0 0 (Some 1) \<notin> set (trigger_inventory_alerts catalog_env Map.empty)
   \<and> Message_post 1 0 \<notin> set (trigger_inventory_alerts catalog_env Map.empty)
   \<and> Product_write 1 7 \<notin> set (flag_sales_opportunities catalog_env Map.empty)"
proof -
  have d: "distinct (map product_ident (products catalog_env))"
    by (simp add: catalog_env_def)
  have p: "\<lparr>product_ident = 1, qty_available = 3\<rparr> \<in> set (products catalog_env)"
    by (simp add: catalog_env_def)
  have n: "Map.empty (product_ident \<lparr>product_ident = 1, qty_available = 3\<rparr>) = (None :: real option)"
    by simp
  have s: "0 \<le> qty_available \<lparr>product_ident = 1, qty_available = 3\<rparr>" by simp
  show ?thesis
    using d absent_product_no_action [OF d p n s] by simp
qed

theorem absent_product_negative_stock:
  "trigger_inventory_alerts catalog_env Map.empty =
     [Orderpoint_create 3 0 0 (Some 1), Message_post 3 0]
   \<and> flag_sales_opportunities catalog_env Map.empty = [Product_write 3 7]"
  by (simp add: trigger_inventory_alerts_def inventory_alert_def flag_sales_opportunities_def
      sales_opportunity_def get_def first_warehouse_def catalog_env_def)

section \<open>Cleaning\<close>

lemma dropna_iff:
  "r' \<in> set (dropna rs) \<longleftrightarrow>
     (\<exists>r \<in> set rs. product_id r = Some (product_id r')
        \<and> product_uom_qty r = Some (product_uom_qty r')
        \<and> date_order r = date_order r' \<and> price_unit r = price_unit r'
        \<and> date r = date r')"
  by (induction rs) (auto split: option.splits)

text \<open>
  Claim C4, as amended.  The cleaning stage keeps exactly the rows with a product and a
  quantity whose date is strictly after the current date minus one calendar year.  The
  stage has no lookback argument: the window is the same whatever \<open>lookback_days\<close> the
  pipeline is called with.  With \<open>lookback_days = 30\<close> a row dated 100 days before the
  run is retained, as the example on \<open>shop\<close> shows below.
\<close>

theorem cleaning_window_is_one_year:
  assumes "clean_data now raw = Inr df"
  shows "(r' \<in> set df) =
           (\<exists>r \<in> set (fst raw). product_id r = Some (product_id r')
              \<and> product_uom_qty r = Some (product_uom_qty r')
              \<and> date_order r = date_order r' \<and> price_unit r = price_unit r'
              \<and> date r' = to_date (date_order r)
              \<and> minus_one_year (to_date now) < date r')"
    (is "?L = ?R")
proof -
  have df: "df = dropna (filter (\<lambda>r. minus_one_year (to_date now) < date r)
                           (map with_date (fst raw)))"
    using assms by (simp add: clean_data_def split: if_splits)
  have "?L = (\<exists>r \<in> set (fst raw). minus_one_year (to_date now) < date (with_date r)
                \<and> product_id (with_date r) = Some (product_id r')
                \<and> product_uom_qty (with_date r) = Some (product_uom_qty r')
                \<and> date_order (with_date r) = date_order r'
                \<and> price_unit (with_date r) = price_unit r'
                \<and> date (with_date r) = date r')"
    unfolding df dropna_iff by auto
  also have "\<dots> = ?R"
    by (rule bex_cong) (auto simp: with_date_def)
  finally show ?thesis .
qed

theorem cleaning_window_is_one_year_witness:
  "clean_data run_time (extract_raw_data shop) = Inr [shop_sale]
   \<and> product_id shop_sale = 1 \<and> product_uom_qty shop_sale = 4
   \<and> minus_one_year (to_date run_time) < date shop_sale"
proof -
  have h: "clean_data run_time (extract_raw_data shop) = Inr [shop_sale]"
    by code_simp
  have v: "product_id shop_sale = 1" "product_uom_qty shop_sale = 4"
    by (simp_all add: shop_sale_def)
  show ?thesis
    using h v cleaning_window_is_one_year [OF h, of shop_sale] by auto
qed

theorem cleaning_ignores_lookback:
  "clean_data run_time (extract_raw_data shop) = Inr [shop_sale]
   \<and> date shop_sale \<le> to_date run_time - 30"
proof -
  have "clean_data run_time (extract_raw_data shop) = Inr [shop_sale]"
    by code_simp
  moreover have "date shop_sale \<le> to_date run_time - 30"
    by (simp add: shop_sale_def to_date_def run_time_def)
  ultimately show ?thesis by simp
qed

section \<open>Rolling features\<close>

lemma apply_groups_raises:
  "ks \<noteq> [] \<Longrightarrow> (\<And>k. f k = Inl e) \<Longrightarrow> apply_groups f ks = Inl e"
  by (cases ks) simp_all

lemma transform_raises:
  assumes "df \<noteq> []" and "\<And>x. f x = Inl e"
  shows "transform f df = Inl e"
proof -
  have "set (sort (remdups (map product_id df))) \<noteq> {}"
    using assms(1) by simp
  then have "sort (remdups (map product_id df)) \<noteq> []"
    by (metis empty_set)
  then show ?thesis
    unfolding transform_def
    by (simp add: apply_groups_raises [where e = e] assms(2))
qed

lemma transform_Nil: "transform f [] = Inr []"
  by (simp add: transform_def)

lemma add_rolling_features_Nil: "add_rolling_features [] w = Inr []"
  by (simp add: add_rolling_features_def transform_Nil)

lemma add_rolling_features_raises:
  assumes "df \<noteq> []"
  shows "add_rolling_features df w = Inl ValueError"
proof -
  have "sort_key (\<lambda>r. (product_id r, date r)) df \<noteq> []"
    using assms by (metis length_sort length_0_conv)
  then have "transform (rolling_mean ''7D'' on) (sort_key (\<lambda>r. (product_id r, date r)) df)
               = Inl ValueError" for on
    by (rule transform_raises) (simp add: rolling_mean_def rolling_def)
  then show ?thesis
    by (simp add: add_rolling_features_def Let_def)
qed

text \<open>
  Claim C2.  The rolling stage does not compute the rolling columns.  On every table with
  at least one row the first rolling window is constructed with the date column itself
  as \<open>on\<close>, the constructor raises \<open>ValueError\<close>, and the stage returns no table: there
  is no row whose rolling features could be traced to the history of its product.  Only
  the table without rows passes, unchanged.
\<close>

theorem rolling_stage_raises:
  "add_rolling_features df window_days = (if df = [] then Inr [] else Inl ValueError)"
  by (simp add: add_rolling_features_Nil add_rolling_features_raises)

theorem rolling_stage_raises_witness:
  "length rolling_example = 5 \<and> add_rolling_features rolling_example 365 = Inl ValueError"
proof -
  have l: "length rolling_example = 5"
    by (simp add: rolling_example_def add_time_features_def)
  then have "rolling_example \<noteq> []" by auto
  then show ?thesis
    using l rolling_stage_raises [of rolling_example 365] by simp
qed

text \<open>
  Claim C5.  On a table of one sale of quantity zero, where the claim gives
  \<open>sales_growth_30d\<close> the value 0, the stage raises \<open>ValueError\<close> at the 7-day window,
  before the growth rate is evaluated; the growth rate, called on the quantities alone,
  raises as well.  No value of \<open>sales_growth_30d\<close> is produced.
\<close>

theorem growth_rate_not_computed:
  "add_rolling_features zero_sales 365 = Inl ValueError
   \<and> growth_rate (map date zero_sales) (map product_uom_qty zero_sales) = Inl ValueError"
  by code_simp

section \<open>The inventory join\<close>

text \<open>
  Claim C1.  The join stage does not join.  Whenever the inventory snapshot has a record,
  the as-of join is called on two date columns of objects and raises \<open>MergeError\<close>,
  whatever the sales table: no sales row receives an inventory record, neither the most
  recent one at or before its date nor any other.
\<close>

theorem inventory_join_raises:
  assumes "stock_quants env \<noteq> []"
  shows "add_inventory_features env df = Inl MergeError"
  using assms by (simp add: add_inventory_features_def merge_asof_def)

theorem inventory_join_raises_witness:
  "stock_quants shop \<noteq> [] \<and> add_inventory_features shop shop_features = Inl MergeError"
proof -
  have h: "stock_quants shop \<noteq> []" by (simp add: shop_def)
  show ?thesis using h inventory_join_raises [OF h, of shop_features] by simp
qed

text \<open>
  Claim C6.  For a sale of 4 units of a product whose only inventory level, dated the day
  before, has quantity 0, the claim gives \<open>demand_supply_ratio\<close> the finite value
  4 / (0 + 1e-6).  The stage raises \<open>MergeError\<close> at the join, and the line that
  divides is not reached: no ratio is produced.
\<close>

theorem demand_supply_ratio_not_computed:
  "add_inventory_features sold_out_shop shop_features = Inl MergeError"
  by code_simp

text \<open>
  Claim C10.  With an empty inventory snapshot the join step returns its input table as
  it is, without the \<open>quantity\<close> and \<open>demand_supply_ratio\<close> columns; the trainer's
  column selection then raises \<open>KeyError\<close> on this table.
\<close>

theorem empty_inventory_no_join:
  assumes "stock_quants env = []"
  shows "add_inventory_features env df = Inr (Unjoined df)
         \<and> train_model fit (Unjoined df) = Inl (KeyError ''demand_supply_ratio'')"
  using assms
  by (simp add: add_inventory_features_def train_model_def)

theorem empty_inventory_no_join_witness:
  "stock_quants catalog_env = []
   \<and> add_inventory_features catalog_env shop_features = Inr (Unjoined shop_features)
   \<and> train_model (\<lambda>X y. Inr ()) (Unjoined shop_features)
       = Inl (KeyError ''demand_supply_ratio'')"
proof -
  have h: "stock_quants catalog_env = []" by (simp add: catalog_env_def)
  show ?thesis
    using h empty_inventory_no_join [OF h, of shop_features "\<lambda>X y. Inr ()"]
    by blast
qed

section \<open>The pipeline on an empty table\<close>

text \<open>
  Claim C9, as amended.  When cleaning returns a table without rows and the inventory
  snapshot is empty, no error is raised: the time, rolling and inventory stages run on
  the empty table and the pipeline returns an empty feature table.  The example below
  shows it on a shop whose only order is older than a year.
\<close>

theorem empty_cleaning_proceeds:
  assumes "clean_data now (extract_raw_data env) = Inr []"
    and "stock_quants env = []"
  shows "prepare_training_data now env lookback_days = Inr (Unjoined [])"
  using assms
  by (simp add: prepare_training_data_def add_time_features_def add_rolling_features_Nil
      add_inventory_features_def)

theorem empty_cleaning_proceeds_witness:
  "clean_data run_time (extract_raw_data stale_shop) = Inr []
   \<and> stock_quants stale_shop = []
   \<and> prepare_training_data run_time stale_shop 30 = Inr (Unjoined [])"
proof -
  have h: "clean_data run_time (extract_raw_data stale_shop) = Inr []"
    by code_simp
  have q: "stock_quants stale_shop = []"
    by (simp add: stale_shop_def shop_def)
  show ?thesis using h q empty_cleaning_proceeds [OF h q, of 30] by simp
qed

theorem empty_cleaning_no_error:
  "clean_data run_time (extract_raw_data stale_shop) = Inr []
   \<and> prepare_training_data run_time stale_shop 365 = Inr (Unjoined [])"
  by code_simp

section \<open>Prediction\<close>

text \<open>
  Claim C8.  The predictor does not skip a catalog product without feature rows.  Called
  on a joined table that holds a row of product 1 only, with a catalog of products 1 and
  2, it raises \<open>IndexError\<close> at \<open>.iloc[-1]\<close> on the empty selection of product 2 and
  returns no prediction map, not even for product 1.  The predicting function is a
  stand-in that answers 10.
\<close>

theorem predictor_raises_on_unsold_product:
  "generate_predictions (\<lambda>m x. 10) run_time shop () (Joined [shop_joined]) = Inl IndexError"
  by (simp add: generate_predictions_def latest_features_def shop_def shop_joined_def)

end
